theory Spec2Isabelle
  imports Complex_Main "HOL-Library.Log_Nat"
begin

section \<open>Values and the logging backend\<close>

text \<open>
  Go's \<open>interface{}\<close> values, as far as this package builds or inspects them: the
  elements of the \<open>[]interface{}\<close> field sequences, the values stored in a request
  context, and the \<open>extra\<close> argument of \<open>Write\<close>.

  \<open>VElapsedMs n\<close> stands for the float64 value \<open>float64(n) / 1000000.0\<close>;
  \<open>float64_val\<close> below gives the number it is. \<open>VBytes\<close> is a \<open>[]byte\<close> (the nil
  slice and the empty slice are both \<open>VBytes []\<close>: \<open>string(body)\<close> is empty for
  either). \<open>VEntry p\<close> is a \<open>*RequestLoggerEntry\<close>, \<open>None\<close> the nil pointer of that
  type. \<open>VNil\<close> is the nil interface, \<open>VOther\<close> a value of any other dynamic type.
\<close>

datatype iface =
    VNil
  | VStr string
  | VInt int
  | VElapsedMs int
  | VBytes string
  | VEntry "nat option"
  | VOther

text \<open>The levels of hclog, in its order.\<close>

datatype Level = NoLevel | Trace | Debug | Info | Warn | Error | Off

text \<open>
  A logger handle of the backend. The backend is outside this package, which only calls
  \<open>With\<close> and \<open>Log\<close> on a handle and asks for the null logger; a handle is therefore
  the record of how it was obtained: the global logger \<open>hclog.L()\<close>, the null logger,
  or \<open>h.With(args...)\<close>.
\<close>

datatype hclogger = hclog_L | NullLogger | With hclogger "iface list"

text \<open>One call \<open>h.Log(level, msg, args...)\<close>.\<close>

record LogCall =
  call_logger :: hclogger
  call_level :: Level
  call_msg :: string
  call_args :: "iface list"

section \<open>Strings\<close>

text \<open>
  \<open>strings.ToLower\<close> on the bytes of an ASCII string: \<open>A\<close> to \<open>Z\<close> move by
  \<open>'a' - 'A'\<close>, every other byte stays. HTTP header names are ASCII tokens. On a
  string with a byte of 128 or more the library maps the letters of Unicode; that
  branch is not modelled, and such strings are outside this development. The general
  theorems below use no property of \<open>ToLower\<close>; the concrete ones are on ASCII
  strings.
\<close>

definition toLowerByte :: "char \<Rightarrow> char" where
  "toLowerByte c =
     (let n = (of_char c :: nat) in if 65 \<le> n \<and> n \<le> 90 then char_of (n + 32) else c)"

definition ToLower :: "string \<Rightarrow> string" where
  "ToLower s = map toLowerByte s"

text \<open>\<open>strings.Join(elems, sep)\<close>.\<close>

fun Join :: "string list \<Rightarrow> string \<Rightarrow> string" where
  "Join [] sep = []"
| "Join [x] sep = x"
| "Join (x # y # ys) sep = x @ sep @ Join (y # ys) sep"

text \<open>The verb \<open>%d\<close> of \<open>fmt.Sprintf\<close>: decimal digits, a minus sign before a negative.\<close>

fun digitsOf :: "nat \<Rightarrow> string" where
  "digitsOf n =
     (if n < 10 then [char_of (48 + n)]
      else digitsOf (n div 10) @ [char_of (48 + n mod 10)])"

definition Itoa :: "int \<Rightarrow> string" where
  "Itoa i = (if i < 0 then CHR ''-'' # digitsOf (nat (- i)) else digitsOf (nat i))"

section \<open>Binary64 arithmetic\<close>

text \<open>
  A finite float64 is the rational number it denotes. \<open>round64\<close> is rounding to the
  nearest binary64 value, ties to the even significand: the exponent \<open>e\<close> of the last
  place is chosen so that the significand has 53 bits, and is at least \<open>-1074\<close> (the
  subnormal numbers); the significand is the nearest integer to \<open>\<bar>x\<bar> / 2 powi e\<close>.
  Overflow to infinity (a magnitude of \<open>2 ^ 1024\<close> and more) is not modelled; no
  conversion of an int64 and no quotient of one by a million comes near it.

  \<open>ilog2 x\<close> is the integer part of the binary logarithm of a positive rational,
  from the bit lengths of its numerator and denominator.
\<close>

definition ilog2 :: "rat \<Rightarrow> int" where
  "ilog2 x =
     (let (p, q) = quotient_of x; k = bitlen p - bitlen q
      in if 2 powi k \<le> x then k else k - 1)"

definition rne :: "rat \<Rightarrow> int" where
  "rne y =
     (let f = \<lfloor>y\<rfloor>; d = y - of_int f
      in if d < 1 / 2 then f else if 1 / 2 < d then f + 1
         else if even f then f else f + 1)"

definition round64 :: "rat \<Rightarrow> rat" where
  "round64 x =
     (if x = 0 then 0
      else let e = max (ilog2 \<bar>x\<bar> - 52) (- 1074);
               m = rne (\<bar>x\<bar> / 2 powi e)
           in sgn x * of_int m * 2 powi e)"




section \<open>Configuration\<close>

text \<open>
  A \<open>[]string\<close> is a view of a backing array: the nil slice, or an array (by address)
  with an offset and a length. The arrays live in the store \<open>arrays\<close> of the world, so
  that two slice values over one array see each other's writes.
\<close>

datatype strslice = NilSlice | Slice nat nat nat

definition slice_elems :: "(nat \<Rightarrow> string list) \<Rightarrow> strslice \<Rightarrow> string list" where
  "slice_elems A s =
     (case s of NilSlice \<Rightarrow> [] | Slice a off n \<Rightarrow> take n (drop off (A a)))"

record Options =
  Name :: string
  Level :: string
  JSONFormat :: bool
  TimeFormat :: string
  Concise :: bool
  Tags :: "(string \<times> string) list"
  SkipHeaders :: strslice

text \<open>
  \<open>hclog.LoggerOptions\<close>, the four fields \<open>Configure\<close> sets. The level is what
  \<open>hclog.LevelFromString\<close> makes of the string, kept as that application.
\<close>

datatype hclog_level = LevelFromString string

record LoggerOptions =
  hc_Name :: string
  hc_Level :: hclog_level
  hc_TimeFormat :: string
  hc_JSONFormat :: bool

definition RFC3339Nano :: string where
  "RFC3339Nano = ''2006-01-02T15:04:05.999999999Z07:00''"

record RequestLoggerEntry =
  Logger :: hclogger
  msg :: string

text \<open>
  The state of the process: the two package-level variables, the backing arrays of
  string slices, the entries that \<open>*RequestLoggerEntry\<close> pointers point to, and the
  calls of \<open>Log\<close> made so far.
\<close>

record world =
  DefaultOptions :: Options
  hclog_DefaultOptions :: LoggerOptions
  arrays :: "nat \<Rightarrow> string list"
  entries :: "nat \<Rightarrow> RequestLoggerEntry"
  logged :: "LogCall list"

text \<open>The initial value of \<open>DefaultOptions\<close>, and a world that holds it and nothing else.\<close>

definition DefaultOptions_init :: Options where
  "DefaultOptions_init =
     \<lparr>Name = '''', Level = ''info'', JSONFormat = False, TimeFormat = RFC3339Nano,
      Concise = False, Tags = [], SkipHeaders = NilSlice\<rparr>"

definition init_world :: world where
  "init_world =
     \<lparr>DefaultOptions = DefaultOptions_init,
      hclog_DefaultOptions =
        \<lparr>hc_Name = '''', hc_Level = LevelFromString ''info'',
         hc_TimeFormat = RFC3339Nano, hc_JSONFormat = False\<rparr>,
      arrays = (\<lambda>_. []),
      entries = (\<lambda>_. \<lparr>Logger = NullLogger, msg = ''''\<rparr>),
      logged = []\<rparr>"

text \<open>
  One round of the loop \<open>for i, header := range opts.SkipHeaders\<close>: the element at
  index \<open>i\<close> of the slice is replaced in the backing array.
\<close>

definition lowerAt ::
  "nat \<Rightarrow> nat \<Rightarrow> nat \<Rightarrow> (nat \<Rightarrow> string list) \<Rightarrow> (nat \<Rightarrow> string list)" where
  "lowerAt a off i A = A(a := (A a)[off + i := ToLower ((A a) ! (off + i))])"

definition lowerSkipHeaders ::
  "strslice \<Rightarrow> (nat \<Rightarrow> string list) \<Rightarrow> (nat \<Rightarrow> string list)" where
  "lowerSkipHeaders s A =
     (case s of NilSlice \<Rightarrow> A | Slice a off n \<Rightarrow> fold (lowerAt a off) [0..<n] A)"

definition Configure :: "Options \<Rightarrow> world \<Rightarrow> world" where
  "Configure opts0 w =
     (let opts1 = (if Level opts0 = '''' then opts0\<lparr>Level := ''info''\<rparr> else opts0);
          opts = (if TimeFormat opts1 = '''' then opts1\<lparr>TimeFormat := RFC3339Nano\<rparr>
                  else opts1)
      in w\<lparr>arrays := lowerSkipHeaders (SkipHeaders opts) (arrays w),
            DefaultOptions := opts,
            hclog_DefaultOptions :=
              \<lparr>hc_Name = Name opts, hc_Level = LevelFromString (Level opts),
               hc_TimeFormat = TimeFormat opts, hc_JSONFormat = JSONFormat opts\<rparr>\<rparr>)"

section \<open>Header redactor\<close>

text \<open>
  An \<open>http.Header\<close> is a map from names to value lists. \<open>range\<close> visits its entries in
  an order the language leaves open; a header collection is here the list of its
  entries in the order the loop visits them.
\<close>

type_synonym header = "(string \<times> string list) list"

text \<open>The inner loop over \<open>DefaultOptions.SkipHeaders\<close>, with its \<open>break\<close>.\<close>

fun skipLoop :: "string \<Rightarrow> string list \<Rightarrow> iface list \<Rightarrow> iface list" where
  "skipLoop k [] headerField = headerField"
| "skipLoop k (skip # rest) headerField =
     (if k = skip then headerField @ [VStr k, VStr ''***'']
      else skipLoop k rest headerField)"

text \<open>The outer loop over the entries of the header, \<open>headerField\<close> its accumulator.\<close>

fun headerLoop :: "string list \<Rightarrow> header \<Rightarrow> iface list \<Rightarrow> iface list" where
  "headerLoop skips [] headerField = headerField"
| "headerLoop skips ((k0, v) # rest) headerField =
     (let k = ToLower k0 in
      if length v = 0 then headerLoop skips rest headerField
      else
        let hf1 = (if length v = 1 then headerField @ [VStr k, VStr (v ! 0)]
                   else headerField @ [VStr k, VStr (''['' @ Join v ''], ['' @ '']'')]);
            hf2 = (if k = ''authorization'' \<or> k = ''cookie'' \<or> k = ''set-cookie''
                   then hf1 @ [VStr k, VStr ''***''] else hf1);
            hf3 = skipLoop k skips hf2
        in headerLoop skips rest hf3)"

definition headerLogField :: "world \<Rightarrow> header \<Rightarrow> iface list" where
  "headerLogField w header =
     headerLoop (slice_elems (arrays w) (SkipHeaders (DefaultOptions w))) header []"

section \<open>Severity classifier\<close>

text \<open>
  \<open>statusLevel\<close> and \<open>statusLabel\<close>: the \<open>switch\<close> of the source, first matching case
  first. The status is a Go \<open>int\<close>; it is only compared and printed, so it is an \<open>int\<close>
  here.
\<close>

definition statusLevel :: "int \<Rightarrow> Level" where
  "statusLevel status =
     (if status \<le> 0 then Warn
      else if status < 400 then Info
      else if status \<ge> 400 \<and> status < 500 then Warn
      else if status \<ge> 500 then Error
      else Info)"

definition statusLabel :: "int \<Rightarrow> string" where
  "statusLabel status =
     (if status \<ge> 100 \<and> status < 300 then ''OK''
      else if status \<ge> 300 \<and> status < 400 then ''Redirect''
      else if status \<ge> 400 \<and> status < 500 then ''Client Error''
      else if status \<ge> 500 then ''Server Error''
      else ''Unknown'')"

section \<open>Requests and their context\<close>

text \<open>
  A request context holds values under keys; this package reads two keys of the chi
  middleware. The newest binding comes first. \<open>Value\<close> is \<open>ctx.Value(key)\<close>, the nil
  interface when the key is unbound.
\<close>

datatype ctxkey = LogEntryCtxKey | RequestIDKey

type_synonym Context = "(ctxkey \<times> iface) list"

definition Value :: "Context \<Rightarrow> ctxkey \<Rightarrow> iface" where
  "Value ctx key = (case map_of ctx key of None \<Rightarrow> VNil | Some v \<Rightarrow> v)"

text \<open>\<open>middleware.GetReqID\<close>: the string under \<open>RequestIDKey\<close>, empty without one.\<close>

definition GetReqID :: "Context \<Rightarrow> string" where
  "GetReqID ctx = (case Value ctx RequestIDKey of VStr reqID \<Rightarrow> reqID | _ \<Rightarrow> '''')"

text \<open>
  The fields of \<open>*http.Request\<close> that are read. \<open>TLS\<close> is \<open>r.TLS != nil\<close>,
  \<open>URL_Path\<close> is \<open>r.URL.Path\<close>, \<open>Ctx\<close> is \<open>r.Context()\<close>.
\<close>

record Request =
  TLS :: bool
  Host :: string
  RequestURI :: string
  Method :: string
  URL_Path :: string
  RemoteAddr :: string
  Proto :: string
  Header :: header
  Ctx :: Context

definition requestLogFields :: "world \<Rightarrow> Request \<Rightarrow> bool \<Rightarrow> iface list" where
  "requestLogFields w r concise =
     (let scheme = (if TLS r then ''https'' else ''http'');
          requestURL = scheme @ ''://'' @ Host r @ RequestURI r;
          requestFields0 =
            [VStr ''requestURL'', VStr requestURL,
             VStr ''requestMethod'', VStr (Method r),
             VStr ''requestPath'', VStr (URL_Path r),
             VStr ''remoteIP'', VStr (RemoteAddr r),
             VStr ''proto'', VStr (Proto r)];
          reqID = GetReqID (Ctx r);
          requestFields1 =
            (if reqID \<noteq> '''' then requestFields0 @ [VStr ''requestID'', VStr reqID]
             else requestFields0)
      in if concise then requestFields1
         else
           let requestFields2 = requestFields1 @ [VStr ''scheme'', VStr scheme]
           in if length (Header r) > 0
              then requestFields2 @ headerLogField w (Header r)
              else requestFields2)"

section \<open>Request log entry\<close>

text \<open>
  \<open>NewLogEntry\<close> returns a pointer to a fresh entry; the function here gives the entry
  it points to. \<open>l\<close> is the logger of the \<open>requestLogger\<close>.
\<close>

definition NewLogEntry :: "hclogger \<Rightarrow> Request \<Rightarrow> world \<Rightarrow> RequestLoggerEntry" where
  "NewLogEntry l r w = \<lparr>Logger = With l (requestLogFields w r True), msg = ''''\<rparr>"

text \<open>
  \<open>Write\<close> reads the entry behind its receiver and makes one call of \<open>Log\<close>.
  \<open>elapsed\<close> is the \<open>time.Duration\<close>, a count of nanoseconds. The assertion
  \<open>extra.([]byte)\<close> with its discarded \<open>ok\<close> gives the nil slice for every other
  dynamic type.
\<close>

definition Write ::
  "RequestLoggerEntry \<Rightarrow> int \<Rightarrow> int \<Rightarrow> header \<Rightarrow> int \<Rightarrow> iface \<Rightarrow> world \<Rightarrow> world" where
  "Write l status bytes header elapsed extra w =
     (let msg0 = Itoa status @ '' '' @ statusLabel status;
          msg1 = (if msg l \<noteq> '''' then msg0 @ '' - '' @ msg l else msg0);
          responseLog0 =
            [VStr ''status'', VInt status,
             VStr ''bytes'', VInt bytes,
             VStr ''elapsed'', VElapsedMs elapsed];
          responseLog =
            (if \<not> Concise (DefaultOptions w) then
               let responseLog1 =
                     (if status \<ge> 400 then
                        let body = (case extra of VBytes b \<Rightarrow> b | _ \<Rightarrow> [])
                        in responseLog0 @ [VStr ''responseBody'', VStr body]
                      else responseLog0)
               in if length header > 0 then responseLog1 @ headerLogField w header
                  else responseLog1
             else responseLog0)
      in w\<lparr>logged := logged w @
            [\<lparr>call_logger = Logger l, call_level = statusLevel status,
              call_msg = msg1, call_args = responseLog\<rparr>]\<rparr>)"

text \<open>
  \<open>Panic\<close> gives the entry as it is after the call. \<open>vfmt\<close> is
  \<open>fmt.Sprintf("%+v", v)\<close>, the text of the recovered value. The pretty stack that the
  middleware prints to standard error is not part of the state.
\<close>

definition Panic :: "RequestLoggerEntry \<Rightarrow> string \<Rightarrow> string \<Rightarrow> world \<Rightarrow> RequestLoggerEntry" where
  "Panic l vfmt stack w =
     (let stacktrace = (if JSONFormat (DefaultOptions w) then stack else ''#'')
      in l\<lparr>Logger := With (Logger l)
                 [VStr ''stacktrace'', VStr stacktrace, VStr ''panic'', VStr vfmt],
           msg := vfmt\<rparr>)"

text \<open>
  The deferred function of \<open>Handler\<close>: the bounded buffer \<open>buf\<close> is read only for a
  status of 400 and above, otherwise \<open>respBody\<close> stays the nil byte slice.
\<close>

definition Handler_deferred ::
  "RequestLoggerEntry \<Rightarrow> int \<Rightarrow> int \<Rightarrow> header \<Rightarrow> int \<Rightarrow> string \<Rightarrow> world \<Rightarrow> world" where
  "Handler_deferred entry status bytes header elapsed buf w =
     (let respBody = (if status \<ge> 400 then buf else [])
      in Write entry status bytes header elapsed (VBytes respBody) w)"

section \<open>Context accessors\<close>

text \<open>
  The type assertion \<open>ctx.Value(key).(*RequestLoggerEntry)\<close> succeeds exactly on a value
  \<open>VEntry p\<close>, also for the nil pointer of that type. \<open>LogEntry\<close> tests the pointer;
  the two setters dereference it as it is.
\<close>

datatype error = NilPointerDereference

definition LogEntry :: "Context \<Rightarrow> world \<Rightarrow> hclogger" where
  "LogEntry ctx w =
     (case Value ctx LogEntryCtxKey of
        VEntry (Some p) \<Rightarrow> Logger (entries w p)
      | _ \<Rightarrow> NullLogger)"

definition LogEntrySetFields :: "Context \<Rightarrow> iface list \<Rightarrow> world \<Rightarrow> error + world" where
  "LogEntrySetFields ctx fs w =
     (case Value ctx LogEntryCtxKey of
        VEntry (Some p) \<Rightarrow>
          Inr (w\<lparr>entries := (entries w)
                 (p := (entries w p)\<lparr>Logger := With (Logger (entries w p)) fs\<rparr>)\<rparr>)
      | VEntry None \<Rightarrow> Inl NilPointerDereference
      | _ \<Rightarrow> Inr w)"

definition LogEntrySetField :: "Context \<Rightarrow> string \<Rightarrow> string \<Rightarrow> world \<Rightarrow> error + world" where
  "LogEntrySetField ctx key val w =
     (case Value ctx LogEntryCtxKey of
        VEntry (Some p) \<Rightarrow>
          Inr (w\<lparr>entries := (entries w)
                 (p := (entries w p)\<lparr>Logger := With (Logger (entries w p))
                                                [VStr key, VStr val]\<rparr>)\<rparr>)
      | VEntry None \<Rightarrow> Inl NilPointerDereference
      | _ \<Rightarrow> Inr w)"

section \<open>The re-redaction of the specification, and concrete inputs\<close>

text \<open>
  This definition follows the wording of the specification, not the code: the header
  collection "whose sensitive entries already hold the masked value". An entry is
  sensitive when its lower-cased name is one of the three built-in names or an entry
  of the configured \<open>SkipHeaders\<close>; an entry without values holds none and stays.
\<close>

definition alreadyMasked :: "world \<Rightarrow> header \<Rightarrow> header" where
  "alreadyMasked w header =
     map (\<lambda>(k, v).
            if v \<noteq> [] \<and>
               (ToLower k = ''authorization'' \<or> ToLower k = ''cookie'' \<or>
                ToLower k = ''set-cookie'' \<or>
                ToLower k \<in> set (slice_elems (arrays w) (SkipHeaders (DefaultOptions w))))
            then (k, [''***'']) else (k, v)) header"

text \<open>
  A process configured with three skipped headers, one of them twice after
  lower-casing; a process configured as concise; a request.
\<close>

definition skip_world :: world where
  "skip_world =
     Configure (DefaultOptions_init\<lparr>SkipHeaders := Slice 0 0 3\<rparr>)
       (init_world\<lparr>arrays := (\<lambda>_. [])(0 := [''X-Api-Key'', ''Cookie'', ''x-api-key''])\<rparr>)"

definition concise_world :: world where
  "concise_world = Configure (DefaultOptions_init\<lparr>Concise := True\<rparr>) init_world"

definition example_request :: Request where
  "example_request =
     \<lparr>TLS = True, Host = ''example.org'', RequestURI = ''/a?b=1'', Method = ''GET'',
      URL_Path = ''/a'', RemoteAddr = ''10.0.0.1:4711'', Proto = ''HTTP/1.1'',
      Header = [(''Accept'', [''text/html''])],
      Ctx = [(RequestIDKey, VStr ''host/1-000001'')]\<rparr>"

section \<open>Theorems\<close>

text \<open>
  C3. For every integer status code, the level and the label follow the tables:
  at most 0 gives Warn and Unknown; 1 to 99 gives Info and Unknown; 100 to 299 gives Info
  and OK; 300 to 399 gives Info and Redirect; 400 to 499 gives Warn and Client Error;
  500 and above gives Error and Server Error.
\<close>

theorem status_tables:
  "(s \<le> 0 \<longrightarrow> statusLevel s = Warn \<and> statusLabel s = ''Unknown'') \<and>
   (1 \<le> s \<and> s \<le> 99 \<longrightarrow> statusLevel s = Info \<and> statusLabel s = ''Unknown'') \<and>
   (100 \<le> s \<and> s \<le> 299 \<longrightarrow> statusLevel s = Info \<and> statusLabel s = ''OK'') \<and>
   (300 \<le> s \<and> s \<le> 399 \<longrightarrow> statusLevel s = Info \<and> statusLabel s = ''Redirect'') \<and>
   (400 \<le> s \<and> s \<le> 499 \<longrightarrow> statusLevel s = Warn \<and> statusLabel s = ''Client Error'') \<and>
   (500 \<le> s \<longrightarrow> statusLevel s = Error \<and> statusLabel s = ''Server Error'')"
  by (simp add: statusLevel_def statusLabel_def)

theorem status_tables_witness:
  "statusLevel 0 = Warn \<and> statusLabel 0 = ''Unknown'' \<and>
   statusLevel 42 = Info \<and> statusLabel 42 = ''Unknown'' \<and>
   statusLevel 204 = Info \<and> statusLabel 204 = ''OK'' \<and>
   statusLevel 301 = Info \<and> statusLabel 301 = ''Redirect'' \<and>
   statusLevel 404 = Warn \<and> statusLabel 404 = ''Client Error'' \<and>
   statusLevel 503 = Error \<and> statusLabel 503 = ''Server Error''"
  using status_tables [of 0] status_tables [of 42] status_tables [of 204]
    status_tables [of 301] status_tables [of 404] status_tables [of 503]
  by simp

subsection \<open>The loops of the header redactor\<close>

lemma skipLoop_eq:
  "skipLoop k skips hf = hf @ (if k \<in> set skips then [VStr k, VStr ''***''] else [])"
  by (induction skips) auto

text \<open>One round of the outer loop, as what it appends to the accumulator.\<close>

lemma headerLoop_Cons:
  "headerLoop skips ((k0, v) # rest) acc =
     headerLoop skips rest
       (acc @ (if v = [] then []
               else [VStr (ToLower k0),
                     VStr (if length v = 1 then v ! 0 else ''['' @ Join v ''], ['' @ '']'')]
                    @ (if ToLower k0 = ''authorization'' \<or> ToLower k0 = ''cookie'' \<or>
                          ToLower k0 = ''set-cookie''
                       then [VStr (ToLower k0), VStr ''***''] else [])
                    @ (if ToLower k0 \<in> set skips
                       then [VStr (ToLower k0), VStr ''***''] else [])))"
  by (simp add: skipLoop_eq Let_def)

lemma headerLoop_acc: "headerLoop skips h acc = acc @ headerLoop skips h []"
proof (induction h arbitrary: acc)
  case Nil
  show ?case by simp
next
  case (Cons e h)
  obtain k0 v where e: "e = (k0, v)" by (cases e)
  show ?case
    unfolding e headerLoop_Cons
    by (subst Cons.IH, subst (2) Cons.IH) simp
qed

lemma headerLoop_append:
  "headerLoop skips (h1 @ h2) [] = headerLoop skips h1 [] @ headerLoop skips h2 []"
proof (induction h1)
  case Nil
  show ?case by simp
next
  case (Cons e h1)
  obtain k0 v where e: "e = (k0, v)" by (cases e)
  show ?case
    unfolding e append_Cons headerLoop_Cons
    by (subst headerLoop_acc, subst (2) headerLoop_acc) (simp add: Cons.IH)
qed

lemma skip_world_skips:
  "slice_elems (arrays skip_world) (SkipHeaders (DefaultOptions skip_world)) =
     [''x-api-key'', ''cookie'', ''x-api-key'']"
  by code_simp

subsection \<open>Redaction\<close>

text \<open>
  C1. The claim is that the original value of a sensitive header never appears in the
  sequence the redactor returns. The code appends the pair with the original value
  and then the pair with the mask: for the single header
  \<open>Authorization: Bearer xyz\<close> and no skipped headers the returned sequence holds
  the token at its second place.
\<close>

theorem headerLogField_leaks_original:
  "headerLogField init_world [(''Authorization'', [''Bearer xyz''])] =
     [VStr ''authorization'', VStr ''Bearer xyz'', VStr ''authorization'', VStr ''***'']"
  by code_simp

text \<open>
  C4. The claim is that redacting a collection whose sensitive entries already hold the
  mask gives the same pairs as redacting the original collection. For the single header
  \<open>Cookie: a=b\<close> the two results differ: the first holds the pair with the original
  value, the second does not.
\<close>

theorem headerLogField_reapplied_differs:
  "headerLogField init_world [(''Cookie'', [''a=b''])] =
     [VStr ''cookie'', VStr ''a=b'', VStr ''cookie'', VStr ''***''] \<and>
   headerLogField init_world (alreadyMasked init_world [(''Cookie'', [''a=b''])]) =
     [VStr ''cookie'', VStr ''***'', VStr ''cookie'', VStr ''***'']"
  by code_simp

text \<open>
  C9, as amended. For every header entry with at least one value whose lower-cased name
  is an entry of the configured \<open>SkipHeaders\<close>, in whatever place of the collection:
  the redactor appends the pair of the name and the value, and after it the mask pair
  twice when the name is also one of the three built-in names, once otherwise, however
  many entries of \<open>SkipHeaders\<close> the name equals. Every header entry with an empty
  list of values, whatever its name, is skipped: the redactor appends nothing for it.
\<close>

theorem headerLogField_mask_pairs:
  "(v \<noteq> [] \<and> ToLower k \<in> set (slice_elems (arrays w) (SkipHeaders (DefaultOptions w))) \<longrightarrow>
    headerLogField w (h1 @ (k, v) # h2) =
      headerLogField w h1 @
      [VStr (ToLower k),
       VStr (if length v = 1 then v ! 0 else ''['' @ Join v ''], ['' @ '']'')] @
      (if ToLower k = ''authorization'' \<or> ToLower k = ''cookie'' \<or> ToLower k = ''set-cookie''
       then [VStr (ToLower k), VStr ''***'', VStr (ToLower k), VStr ''***'']
       else [VStr (ToLower k), VStr ''***'']) @
      headerLogField w h2) \<and>
   headerLogField w (h1 @ (k, []) # h2) = headerLogField w h1 @ headerLogField w h2"
proof -
  let ?skips = "slice_elems (arrays w) (SkipHeaders (DefaultOptions w))"
  have split: "headerLoop ?skips (h1 @ (k, u) # h2) [] =
      headerLoop ?skips h1 [] @ headerLoop ?skips [(k, u)] [] @ headerLoop ?skips h2 []" for u
    using headerLoop_append [of ?skips h1 "(k, u) # h2"]
      headerLoop_append [of ?skips "[(k, u)]" h2]
    by simp
  have none: "headerLoop ?skips [(k, [])] [] = []"
    by (subst headerLoop_Cons) simp
  have one: "headerLoop ?skips [(k, v)] [] =
     [VStr (ToLower k),
      VStr (if length v = 1 then v ! 0 else ''['' @ Join v ''], ['' @ '']'')] @
     (if ToLower k = ''authorization'' \<or> ToLower k = ''cookie'' \<or> ToLower k = ''set-cookie''
      then [VStr (ToLower k), VStr ''***'', VStr (ToLower k), VStr ''***'']
      else [VStr (ToLower k), VStr ''***''])"
    if "v \<noteq> []" and "ToLower k \<in> set ?skips"
    using that by (subst headerLoop_Cons) auto
  show ?thesis
  proof (intro conjI impI)
    assume *: "v \<noteq> [] \<and> ToLower k \<in> set ?skips"
    show "headerLogField w (h1 @ (k, v) # h2) =
      headerLogField w h1 @
      [VStr (ToLower k),
       VStr (if length v = 1 then v ! 0 else ''['' @ Join v ''], ['' @ '']'')] @
      (if ToLower k = ''authorization'' \<or> ToLower k = ''cookie'' \<or> ToLower k = ''set-cookie''
       then [VStr (ToLower k), VStr ''***'', VStr (ToLower k), VStr ''***'']
       else [VStr (ToLower k), VStr ''***'']) @
      headerLogField w h2"
      unfolding headerLogField_def split one [OF * [THEN conjunct1] * [THEN conjunct2]]
      by (simp only: append_assoc)
  next
    show "headerLogField w (h1 @ (k, []) # h2) = headerLogField w h1 @ headerLogField w h2"
      unfolding headerLogField_def split none by simp
  qed
qed

text \<open>
  The witness of C9: \<open>Cookie\<close> is built in and skipped, \<open>X-API-Key\<close> equals two
  entries of the skipped headers and gets one mask pair, and \<open>Set-Cookie\<close> without a
  value leaves nothing.
\<close>

theorem headerLogField_mask_pairs_witness:
  "headerLogField skip_world
     [(''Accept'', [''*/*'']), (''Cookie'', [''a=b'']), (''X-API-Key'', [''k1'', ''k2''])] =
     [VStr ''accept'', VStr ''*/*'',
      VStr ''cookie'', VStr ''a=b'', VStr ''cookie'', VStr ''***'', VStr ''cookie'', VStr ''***'',
      VStr ''x-api-key'', VStr ''[k1], [k2]'', VStr ''x-api-key'', VStr ''***''] \<and>
   headerLogField skip_world [(''Accept'', [''*/*'']), (''Set-Cookie'', [])] =
     [VStr ''accept'', VStr ''*/*'']"
proof -
  have a: "headerLogField skip_world [(''Accept'', [''*/*''])] = [VStr ''accept'', VStr ''*/*'']"
    by code_simp
  have n: "headerLogField skip_world [] = []"
    by code_simp
  have l: "ToLower ''Cookie'' = ''cookie''" "ToLower ''X-API-Key'' = ''x-api-key''"
    by code_simp+
  have m: "[''a=b''] \<noteq> [] \<and> ToLower ''Cookie'' \<in>
             set (slice_elems (arrays skip_world) (SkipHeaders (DefaultOptions skip_world)))"
    "[''k1'', ''k2''] \<noteq> [] \<and> ToLower ''X-API-Key'' \<in>
             set (slice_elems (arrays skip_world) (SkipHeaders (DefaultOptions skip_world)))"
    by (simp_all add: skip_world_skips l)
  have b: "headerLogField skip_world [(''X-API-Key'', [''k1'', ''k2''])] =
     [VStr ''x-api-key'', VStr ''[k1], [k2]'', VStr ''x-api-key'', VStr ''***'']"
    using headerLogField_mask_pairs [of "[''k1'', ''k2'']" "''X-API-Key''" skip_world "[]" "[]",
        THEN conjunct1, THEN mp, OF m(2)]
    by (simp add: n l)
  have c: "headerLogField skip_world
     [(''Accept'', [''*/*'']), (''Cookie'', [''a=b'']), (''X-API-Key'', [''k1'', ''k2''])] =
     [VStr ''accept'', VStr ''*/*'',
      VStr ''cookie'', VStr ''a=b'', VStr ''cookie'', VStr ''***'', VStr ''cookie'', VStr ''***'',
      VStr ''x-api-key'', VStr ''[k1], [k2]'', VStr ''x-api-key'', VStr ''***'']"
    using headerLogField_mask_pairs [of "[''a=b'']" "''Cookie''" skip_world
        "[(''Accept'', [''*/*''])]" "[(''X-API-Key'', [''k1'', ''k2''])]",
        THEN conjunct1, THEN mp, OF m(1)]
    by (simp add: a b l)
  have d: "headerLogField skip_world [(''Accept'', [''*/*'']), (''Set-Cookie'', [])] =
     [VStr ''accept'', VStr ''*/*'']"
    using headerLogField_mask_pairs [of "[''x'']" "''Set-Cookie''" skip_world
        "[(''Accept'', [''*/*''])]" "[]", THEN conjunct2]
    by (simp add: a n)
  show ?thesis
    using c d by simp
qed

text \<open>
  The counterexample to C9 as stated: \<open>Cookie\<close> is built in and skipped, but the entry
  has no value, the loop continues, and the redactor appends no pair at all.
\<close>

theorem headerLogField_empty_values_counterexample:
  "ToLower ''Cookie'' = ''cookie'' \<and>
   ''cookie'' \<in> set (slice_elems (arrays skip_world) (SkipHeaders (DefaultOptions skip_world))) \<and>
   headerLogField skip_world [(''Cookie'', [])] = []"
  by code_simp

subsection \<open>Entry creation\<close>

text \<open>
  C2, as amended. Entry creation builds the initial logger handle from
  \<open>requestLogFields(r, true)\<close>, whatever the configured concise flag: the fields are
  the fixed ones (requestURL, requestMethod, requestPath, remoteIP, proto, and
  requestID if non-empty) and nothing else. \<open>requestLogFields\<close> with a false flag
  returns the same fields followed by the scheme field and, if the request has at
  least one header, by the redacted header fields.
\<close>

theorem NewLogEntry_fields:
  "Logger (NewLogEntry l r w) =
     With l
       ([VStr ''requestURL'',
         VStr ((if TLS r then ''https'' else ''http'') @ ''://'' @ Host r @ RequestURI r),
         VStr ''requestMethod'', VStr (Method r),
         VStr ''requestPath'', VStr (URL_Path r),
         VStr ''remoteIP'', VStr (RemoteAddr r),
         VStr ''proto'', VStr (Proto r)] @
        (if GetReqID (Ctx r) = [] then []
         else [VStr ''requestID'', VStr (GetReqID (Ctx r))])) \<and>
   requestLogFields w r False =
     requestLogFields w r True @
     [VStr ''scheme'', VStr (if TLS r then ''https'' else ''http'')] @
     (if Header r = [] then [] else headerLogField w (Header r))"
  by (simp add: NewLogEntry_def requestLogFields_def Let_def)

text \<open>The witness of C2: a request over TLS with a request id and one header.\<close>

theorem NewLogEntry_fields_witness:
  "Logger (NewLogEntry hclog_L example_request init_world) =
     With hclog_L
       [VStr ''requestURL'', VStr ''https://example.org/a?b=1'',
        VStr ''requestMethod'', VStr ''GET'',
        VStr ''requestPath'', VStr ''/a'',
        VStr ''remoteIP'', VStr ''10.0.0.1:4711'',
        VStr ''proto'', VStr ''HTTP/1.1'',
        VStr ''requestID'', VStr ''host/1-000001''] \<and>
   requestLogFields init_world example_request False =
     requestLogFields init_world example_request True @
     [VStr ''scheme'', VStr ''https'', VStr ''accept'', VStr ''text/html'']"
proof -
  have h: "headerLogField init_world [(''Accept'', [''text/html''])] =
             [VStr ''accept'', VStr ''text/html'']"
    by code_simp
  show ?thesis
    using NewLogEntry_fields [of hclog_L example_request init_world]
    by (simp add: example_request_def GetReqID_def Value_def h)
qed

text \<open>
  The counterexample to C2 as stated: the configured concise flag is false and the
  request has a header, yet the fields of the initial handle end with the request id;
  there is no scheme field and no header field.
\<close>

theorem NewLogEntry_not_concise_counterexample:
  "\<not> Concise (DefaultOptions init_world) \<and>
   Header example_request \<noteq> [] \<and>
   Logger (NewLogEntry hclog_L example_request init_world) =
     With hclog_L
       [VStr ''requestURL'', VStr ''https://example.org/a?b=1'',
        VStr ''requestMethod'', VStr ''GET'',
        VStr ''requestPath'', VStr ''/a'',
        VStr ''remoteIP'', VStr ''10.0.0.1:4711'',
        VStr ''proto'', VStr ''HTTP/1.1'',
        VStr ''requestID'', VStr ''host/1-000001'']"
  by (simp add: init_world_def DefaultOptions_init_def example_request_def NewLogEntry_def
        requestLogFields_def GetReqID_def Value_def)

subsection \<open>The flush\<close>

lemma Itoa_503: "Itoa 503 = ''503''"
  by code_simp

text \<open>
  C5, as amended. For every flush with status 503 under a concise configuration,
  exactly one call of \<open>Log\<close> is added, at level Error; its message is
  \<open>503 Server Error\<close> when the entry carries no message of a panic, and that text
  followed by \<open> - \<close> and the message otherwise; its fields are status, bytes and
  elapsed only, whatever the headers and the body.
\<close>

theorem Write_503_concise:
  "Concise (DefaultOptions w) \<Longrightarrow>
   Write l 503 bytes header elapsed extra w =
     w\<lparr>logged := logged w @
         [\<lparr>call_logger = Logger l, call_level = Error,
           call_msg = (if msg l = [] then ''503 Server Error''
                       else ''503 Server Error - '' @ msg l),
           call_args = [VStr ''status'', VInt 503, VStr ''bytes'', VInt bytes,
                        VStr ''elapsed'', VElapsedMs elapsed]\<rparr>]\<rparr>"
  by (simp add: Write_def Itoa_503 statusLabel_def statusLevel_def)

text \<open>The witness of C5: a response with a header and a body, no panic.\<close>

theorem Write_503_concise_witness:
  "Concise (DefaultOptions concise_world) \<and>
   logged (Write \<lparr>Logger = hclog_L, msg = ''''\<rparr> 503 19 [(''Set-Cookie'', [''s=1''])] 1500000
             (VBytes ''upstream unavailable'') concise_world) =
     [\<lparr>call_logger = hclog_L, call_level = Error, call_msg = ''503 Server Error'',
       call_args = [VStr ''status'', VInt 503, VStr ''bytes'', VInt 19,
                    VStr ''elapsed'', VElapsedMs 1500000]\<rparr>]"
proof -
  have c: "Concise (DefaultOptions concise_world)"
    by (simp add: concise_world_def Configure_def DefaultOptions_init_def Let_def)
  have e: "logged concise_world = []"
    by (simp add: concise_world_def Configure_def init_world_def Let_def)
  show ?thesis
    using Write_503_concise [OF c, of "\<lparr>Logger = hclog_L, msg = ''''\<rparr>" 19
        "[(''Set-Cookie'', [''s=1''])]" 1500000 "VBytes ''upstream unavailable''"]
    by (simp add: c e)
qed

text \<open>
  The counterexample to C5 as stated: the handler panicked with \<open>boom\<close> after it had
  set the status 503; the message of the one call is not \<open>503 Server Error\<close>.
\<close>

theorem Write_503_panic_counterexample:
  "Concise (DefaultOptions concise_world) \<and>
   map call_msg
     (logged (Write (Panic \<lparr>Logger = hclog_L, msg = ''''\<rparr> ''boom'' ''goroutine 1''
                       concise_world)
                503 0 [] 0 (VBytes []) concise_world)) =
     [''503 Server Error - boom'']"
  by (simp add: concise_world_def Configure_def DefaultOptions_init_def init_world_def
        Let_def Write_def Panic_def Itoa_503 statusLabel_def)

text \<open>
  C10. For every flush with a status of 400 or more under a configuration that is not
  concise, the call of \<open>Log\<close> is made and its fields hold \<open>responseBody\<close> right after
  status, bytes and elapsed; the value is the text of the bytes, and the empty string
  when the body argument is nil or anything but a byte slice. The deferred function
  of the handler passes the bytes of its buffer.
\<close>

theorem Write_responseBody:
  assumes "\<not> Concise (DefaultOptions w)" and "400 \<le> status"
  shows "Write l status bytes header elapsed extra w =
     w\<lparr>logged := logged w @
         [\<lparr>call_logger = Logger l, call_level = statusLevel status,
           call_msg = Itoa status @ '' '' @ statusLabel status @
                      (if msg l = [] then [] else '' - '' @ msg l),
           call_args =
             [VStr ''status'', VInt status, VStr ''bytes'', VInt bytes,
              VStr ''elapsed'', VElapsedMs elapsed,
              VStr ''responseBody'',
              VStr (case extra of VBytes b \<Rightarrow> b | _ \<Rightarrow> [])] @
             (if header = [] then [] else headerLogField w header)\<rparr>]\<rparr> \<and>
   ((\<forall>b. extra \<noteq> VBytes b) \<longrightarrow>
      call_args (last (logged (Write l status bytes header elapsed extra w))) =
        [VStr ''status'', VInt status, VStr ''bytes'', VInt bytes,
         VStr ''elapsed'', VElapsedMs elapsed, VStr ''responseBody'', VStr []] @
        (if header = [] then [] else headerLogField w header)) \<and>
   Handler_deferred l status bytes header elapsed buf w =
     Write l status bytes header elapsed (VBytes buf) w"
  using assms by (cases extra) (simp_all add: Write_def Handler_deferred_def Let_def)

text \<open>
  The witness of C10: a status of 404 under the initial configuration, once with the
  nil interface as body argument, once through the deferred function of the handler
  with \<open>not found\<close> in the buffer.
\<close>

theorem Write_responseBody_witness:
  "\<not> Concise (DefaultOptions init_world) \<and>
   logged (Write \<lparr>Logger = hclog_L, msg = ''''\<rparr> 404 9 [] 250000 VNil init_world) =
     [\<lparr>call_logger = hclog_L, call_level = Warn, call_msg = ''404 Client Error'',
       call_args = [VStr ''status'', VInt 404, VStr ''bytes'', VInt 9,
                    VStr ''elapsed'', VElapsedMs 250000,
                    VStr ''responseBody'', VStr '''']\<rparr>] \<and>
   logged (Handler_deferred \<lparr>Logger = hclog_L, msg = ''''\<rparr> 404 9 [] 250000 ''not found''
             init_world) =
     [\<lparr>call_logger = hclog_L, call_level = Warn, call_msg = ''404 Client Error'',
       call_args = [VStr ''status'', VInt 404, VStr ''bytes'', VInt 9,
                    VStr ''elapsed'', VElapsedMs 250000,
                    VStr ''responseBody'', VStr ''not found'']\<rparr>]"
proof -
  have c: "\<not> Concise (DefaultOptions init_world)"
    by (simp add: init_world_def DefaultOptions_init_def)
  have s: "(400::int) \<le> 404"
    by simp
  have e: "logged init_world = []"
    by (simp add: init_world_def)
  have i: "Itoa 404 = ''404''"
    by code_simp
  show ?thesis
    using Write_responseBody [OF c s, of "\<lparr>Logger = hclog_L, msg = ''''\<rparr>" 9 "[]" 250000
        VNil "''not found''"]
      Write_responseBody [OF c s, of "\<lparr>Logger = hclog_L, msg = ''''\<rparr>" 9 "[]" 250000
        "VBytes ''not found''" "''not found''"]
    by (simp add: c e i statusLevel_def statusLabel_def)
qed

subsection \<open>Binary64 rounding and the elapsed field\<close>

lemma bitlen_rat_bounds:
  assumes "0 < p"
  shows "(2::rat) powi (bitlen p - 1) \<le> of_int p" and "of_int p < (2::rat) powi bitlen p"
proof -
  have b1: "1 \<le> bitlen p"
    using assms bitlen_eq_zero_iff [of p] bitlen_nonneg [of p] by linarith
  from bitlen_bounds [OF assms]
  have lo: "2 ^ nat (bitlen p - 1) \<le> p" and hi: "p < 2 ^ nat (bitlen p)"
    by simp_all
  have "(of_int (2 ^ nat (bitlen p - 1)) :: rat) \<le> of_int p"
    using lo by (simp only: of_int_le_iff)
  then show "(2::rat) powi (bitlen p - 1) \<le> of_int p"
    using b1 by (simp add: power_int_def)
  have "(of_int p :: rat) < of_int (2 ^ nat (bitlen p))"
    using hi by (simp only: of_int_less_iff)
  then show "of_int p < (2::rat) powi bitlen p"
    using b1 by (simp add: power_int_def)
qed

text \<open>The exponent brackets the number.\<close>

lemma ilog2_bounds:
  assumes "0 < x"
  shows "2 powi (ilog2 x) \<le> x" and "x < 2 powi (ilog2 x + 1)"
proof -
  obtain p q where pq: "quotient_of x = (p, q)"
    by (cases "quotient_of x")
  have q: "0 < q" using pq by (rule quotient_of_denom_pos)
  have x: "x = of_int p / of_int q" using pq by (rule quotient_of_div)
  have p: "0 < p"
    using assms q unfolding x by (simp add: zero_less_divide_iff)
  define k where "k = bitlen p - bitlen q"
  have Q: "(0::rat) < of_int q" using q by simp
  have "x < 2 powi bitlen p / 2 powi (bitlen q - 1)"
    unfolding x
    using bitlen_rat_bounds [OF p] bitlen_rat_bounds [OF q] Q p
    by (intro frac_less) auto
  moreover have "(2::rat) powi bitlen p / 2 powi (bitlen q - 1) = 2 powi (k + 1)"
    by (subst power_int_diff [symmetric]) (simp_all add: k_def algebra_simps)
  ultimately have up: "x < 2 powi (k + 1)"
    by simp
  have "2 powi (bitlen p - 1) / 2 powi bitlen q < x"
    unfolding x
    using bitlen_rat_bounds [OF p] bitlen_rat_bounds [OF q] Q
    by (intro frac_less2) auto
  moreover have "(2::rat) powi (bitlen p - 1) / 2 powi bitlen q = 2 powi (k - 1)"
    by (subst power_int_diff [symmetric]) (simp_all add: k_def algebra_simps)
  ultimately have lo: "2 powi (k - 1) < x"
    by simp
  have il: "ilog2 x = (if 2 powi k \<le> x then k else k - 1)"
    by (simp add: ilog2_def pq k_def Let_def)
  show "2 powi (ilog2 x) \<le> x"
    using lo by (simp add: il)
  show "x < 2 powi (ilog2 x + 1)"
    using up by (auto simp: il)
qed




lemma round64_nonzero:
  "x \<noteq> 0 \<Longrightarrow>
   round64 x =
     sgn x * of_int (rne (\<bar>x\<bar> / 2 powi max (ilog2 \<bar>x\<bar> - 52) (- 1074))) *
     2 powi max (ilog2 \<bar>x\<bar> - 52) (- 1074)"
  by (simp add: round64_def Let_def)





lemma rne_bounds: "\<lfloor>y\<rfloor> \<le> rne y" "rne y \<le> \<lfloor>y\<rfloor> + 1"
  by (simp_all add: rne_def Let_def)

text \<open>The rounding is a binary64 number: a significand of at most 53 bits, or the next
  power of two, at an exponent of \<open>-1074\<close> or more.\<close>

lemma round64_binary64:
  "\<exists>m e. \<bar>m\<bar> \<le> 2 ^ 53 \<and> - 1074 \<le> e \<and> round64 x = of_int m * 2 powi e"
proof (cases "x = 0")
  case True
  then have "\<bar>0::int\<bar> \<le> 2 ^ 53 \<and> - 1074 \<le> (0::int) \<and> round64 x = of_int 0 * 2 powi 0"
    by (simp add: round64_def)
  then show ?thesis by blast
next
  case x0: False
  define E where "E = max (ilog2 \<bar>x\<bar> - 52) (- 1074)"
  define y where "y = \<bar>x\<bar> / 2 powi E"
  have "s = 1 \<or> s = - 1" if "s = sgn x" for s
    using x0 that by (auto simp: sgn_if)
  then obtain i :: int where i: "sgn x = of_int i" "\<bar>i\<bar> = 1"
    by (metis abs_1 abs_minus of_int_1 of_int_minus)
  have r: "round64 x = of_int (i * rne y) * 2 powi E"
    unfolding round64_nonzero [OF x0] E_def [symmetric] y_def i(1) by simp
  have "\<bar>x\<bar> < 2 powi (ilog2 \<bar>x\<bar> + 1)"
    using x0 by (simp add: ilog2_bounds)
  also have "\<dots> \<le> 2 powi (E + 53)"
    by (intro power_int_increasing) (simp_all add: E_def)
  finally have "\<bar>x\<bar> / 2 powi E < 2 powi (E + 53) / 2 powi E"
    by (simp add: divide_strict_right_mono)
  also have "(2::rat) powi (E + 53) / 2 powi E = of_int (2 ^ 53)"
    by (subst power_int_diff [symmetric]) simp_all
  finally have "y < of_int (2 ^ 53)"
    by (simp add: y_def)
  then have "\<lfloor>y\<rfloor> < 2 ^ 53"
    by (simp only: floor_less_iff)
  moreover have "0 \<le> \<lfloor>y\<rfloor>"
    by (simp add: y_def)
  ultimately have "\<bar>rne y\<bar> \<le> 2 ^ 53"
    using rne_bounds [of y] by linarith
  then have "\<bar>i * rne y\<bar> \<le> 2 ^ 53"
    using i(2) by (simp add: abs_mult)
  moreover have "- 1074 \<le> E"
    by (simp add: E_def)
  ultimately show ?thesis
    using r by blast
qed







subsection \<open>Configuration\<close>

lemma lowerAt_same: "lowerAt a off i A a = (A a)[off + i := ToLower (A a ! (off + i))]"
  by (simp add: lowerAt_def)

lemma lowerAt_length: "length (fold (lowerAt a off) [0..<n] A a) = length (A a)"
  by (induction n) (simp_all add: lowerAt_same)

text \<open>What the loop leaves at each index of the array it writes to.\<close>

lemma lowerAt_nth:
  "j < length (A a) \<Longrightarrow>
   fold (lowerAt a off) [0..<n] A a ! j =
     (if off \<le> j \<and> j < off + n then ToLower (A a ! j) else A a ! j)"
proof (induction n)
  case 0
  show ?case by auto
next
  case (Suc n)
  define B where "B = fold (lowerAt a off) [0..<n] A"
  have len: "length (B a) = length (A a)"
    by (simp add: B_def lowerAt_length)
  have IH: "B a ! j = (if off \<le> j \<and> j < off + n then ToLower (A a ! j) else A a ! j)"
    using Suc by (simp add: B_def)
  have step: "fold (lowerAt a off) [0..<Suc n] A a = (B a)[off + n := ToLower (B a ! (off + n))]"
    by (simp add: B_def lowerAt_same)
  show ?case
  proof (cases "j = off + n")
    case True
    then show ?thesis unfolding step using Suc.prems IH len by simp
  next
    case False
    then show ?thesis unfolding step using Suc.prems IH len by auto
  qed
qed

lemma slice_elems_lowered:
  "slice_elems (lowerSkipHeaders s A) s = map ToLower (slice_elems A s)"
proof (cases s)
  case NilSlice
  then show ?thesis by (simp add: slice_elems_def lowerSkipHeaders_def)
next
  case (Slice a off n)
  show ?thesis
    unfolding Slice slice_elems_def lowerSkipHeaders_def
    by (rule nth_equalityI) (auto simp: lowerAt_length lowerAt_nth)
qed

text \<open>
  C6. For every options value passed to \<open>Configure\<close>: the new \<open>DefaultOptions\<close> are
  the options given, with an empty level replaced by \<open>info\<close> and an empty time format
  by the RFC 3339 format with nanoseconds; the entries of the slice \<open>SkipHeaders\<close>,
  read through the caller's slice or through \<open>DefaultOptions\<close>, are the former entries
  lower-cased; and nothing of the former configuration remains: the new
  \<open>DefaultOptions\<close> are the same from whatever state \<open>Configure\<close> is called.
\<close>

theorem Configure_replaces:
  "DefaultOptions (Configure opts w) =
     opts\<lparr>Level := (if Level opts = [] then ''info'' else Level opts),
          TimeFormat := (if TimeFormat opts = [] then RFC3339Nano else TimeFormat opts)\<rparr> \<and>
   slice_elems (arrays (Configure opts w)) (SkipHeaders opts) =
     map ToLower (slice_elems (arrays w) (SkipHeaders opts)) \<and>
   SkipHeaders (DefaultOptions (Configure opts w)) = SkipHeaders opts \<and>
   DefaultOptions (Configure opts w) = DefaultOptions (Configure opts w')"
  by (simp add: Configure_def Let_def slice_elems_lowered)

text \<open>
  The witness of C6: options with an empty level, an empty time format and two
  skipped headers, given to a process that was configured otherwise before.
\<close>

theorem Configure_replaces_witness:
  "DefaultOptions
     (Configure \<lparr>Name = ''svc'', Level = '''', JSONFormat = True, TimeFormat = '''',
                 Concise = True, Tags = [], SkipHeaders = Slice 0 0 2\<rparr>
        (skip_world\<lparr>arrays := (\<lambda>_. [])(0 := [''X-Trace'', ''Proxy-Authorization''])\<rparr>)) =
     \<lparr>Name = ''svc'', Level = ''info'', JSONFormat = True,
      TimeFormat = ''2006-01-02T15:04:05.999999999Z07:00'',
      Concise = True, Tags = [], SkipHeaders = Slice 0 0 2\<rparr> \<and>
   slice_elems
     (arrays
       (Configure \<lparr>Name = ''svc'', Level = '''', JSONFormat = True, TimeFormat = '''',
                   Concise = True, Tags = [], SkipHeaders = Slice 0 0 2\<rparr>
          (skip_world\<lparr>arrays := (\<lambda>_. [])(0 := [''X-Trace'', ''Proxy-Authorization''])\<rparr>)))
     (Slice 0 0 2) = [''x-trace'', ''proxy-authorization'']"
proof -
  have l: "ToLower ''X-Trace'' = ''x-trace''"
    "ToLower ''Proxy-Authorization'' = ''proxy-authorization''"
    by code_simp+
  show ?thesis
    using Configure_replaces [of
        "\<lparr>Name = ''svc'', Level = '''', JSONFormat = True, TimeFormat = '''',
          Concise = True, Tags = [], SkipHeaders = Slice 0 0 2\<rparr>"
        "skip_world\<lparr>arrays := (\<lambda>_. [])(0 := [''X-Trace'', ''Proxy-Authorization''])\<rparr>"
        init_world]
    by (simp add: slice_elems_def RFC3339Nano_def l)
qed

subsection \<open>Context accessors\<close>

text \<open>
  When the assertion on the value under the key fails, that is when nothing is stored
  there or a value of another type: the two setters return without an error and leave
  the whole state as it was, and \<open>LogEntry\<close> returns the null logger.
\<close>

lemma accessors_assertion_fails:
  "\<forall>p. Value ctx LogEntryCtxKey \<noteq> VEntry p \<Longrightarrow>
   LogEntrySetField ctx key val w = Inr w \<and>
   LogEntrySetFields ctx fs w = Inr w \<and>
   LogEntry ctx w = NullLogger"
  by (cases "Value ctx LogEntryCtxKey")
     (simp_all add: LogEntrySetField_def LogEntrySetFields_def LogEntry_def)

text \<open>
  Under a nil pointer of the entry type the assertion succeeds; \<open>LogEntry\<close> tests
  for it, the setters dereference it.
\<close>

lemma setters_nil_entry:
  "Value ctx LogEntryCtxKey = VEntry None \<Longrightarrow>
   LogEntrySetField ctx key val w = Inl NilPointerDereference \<and>
   LogEntrySetFields ctx fs w = Inl NilPointerDereference \<and>
   LogEntry ctx w = NullLogger"
  by (simp add: LogEntrySetField_def LogEntrySetFields_def LogEntry_def)

text \<open>
  C8. The claim is that in a context that stores no request log entry the two setters
  never raise and change nothing, while \<open>LogEntry\<close> returns the null logger. A context
  that holds the nil pointer of type \<open>*RequestLoggerEntry\<close> under the key stores no
  entry, and \<open>LogEntry\<close> returns the null logger for it; both setters fail there on
  the dereference of the nil pointer.
\<close>

theorem setters_panic_on_nil_entry:
  "LogEntry [(LogEntryCtxKey, VEntry None)] init_world = NullLogger \<and>
   LogEntrySetField [(LogEntryCtxKey, VEntry None)] ''user'' ''u1'' init_world =
     Inl NilPointerDereference \<and>
   LogEntrySetFields [(LogEntryCtxKey, VEntry None)] [VStr ''user'', VStr ''u1''] init_world =
     Inl NilPointerDereference"
  by (simp add: LogEntry_def LogEntrySetField_def LogEntrySetFields_def Value_def)

end
